theory Spec2Isabelle
  imports Complex_Main "HOL-Library.Sublist"
begin

section \<open>Python values handled by server.py\<close>

text \<open>
  The handlers of \<^verbatim>\<open>WebHandler\<close> work on what \<^verbatim>\<open>json.loads\<close> returns and hand
  a dictionary to \<^verbatim>\<open>json.dumps\<close>. A Python \<^verbatim>\<open>float\<close> is a finite binary
  fraction (hence a rational), a signed zero, an infinity or a NaN; \<^verbatim>\<open>json.loads\<close>
  produces all of them. A Python \<^verbatim>\<open>str\<close> is kept as its UTF-8 bytes. A
  \<^verbatim>\<open>dict\<close> is an association list in insertion order, looked up with \<open>map_of\<close>.
\<close>

datatype pyfloat = Finite rat | Neg_zero | Pos_inf | Neg_inf | NaN

datatype json =
    JNull
  | JBool bool
  | JInt int
  | JFloat pyfloat
  | JStr string
  | JList "json list"
  | JDict "(string \<times> json) list"

text \<open>
  The exception classes that can reach the handlers' \<^verbatim>\<open>except Exception as e\<close>, and
  \<^verbatim>\<open>UnicodeEncodeError\<close>, which \<^verbatim>\<open>send_error\<close> can raise inside it.
\<close>

datatype py_exn =
    TypeError
  | ValueError
  | KeyError
  | OverflowError
  | JSONDecodeError
  | UnicodeDecodeError
  | OSError
  | UnicodeEncodeError

text \<open>
  \<^verbatim>\<open>send_error(code, message)\<close> writes the message into the status line, which the
  library encodes with \<^verbatim>\<open>encode('latin-1', 'strict')\<close>. So of the text
  \<^verbatim>\<open>str(e)\<close> of an exception one thing matters: whether it encodes as latin-1
  (\<open>Latin1\<close>) or holds a character above U+00FF (\<open>Wide\<close>). The texts of the
  exceptions raised by reading and parsing the body, by \<^verbatim>\<open>in\<close>, by \<^verbatim>\<open>[]\<close> and
  by \<^verbatim>\<open>int()\<close> on anything but a \<^verbatim>\<open>str\<close> are latin-1: they are ASCII, or quote
  a header, which the library decodes as latin-1. The \<^verbatim>\<open>ValueError\<close> of
  \<^verbatim>\<open>int()\<close> on a \<^verbatim>\<open>str\<close> quotes the \<^verbatim>\<open>str\<close>, which comes from the body.
  A value of \<open>py_exn\<close> alone stands for an exception with a latin-1 text; where the
  text can be wide, the exception is paired with its \<open>exn_text\<close>.
\<close>

datatype exn_text = Latin1 | Wide

definition latin1 :: "py_exn + 'a \<Rightarrow> (py_exn \<times> exn_text) + 'a" where
  "latin1 m = (case m of Inl e \<Rightarrow> Inl (e, Latin1) | Inr x \<Rightarrow> Inr x)"

definition bind_exn :: "'e + 'a \<Rightarrow> ('a \<Rightarrow> 'e + 'b) \<Rightarrow> 'e + 'b" where
  "bind_exn m f = (case m of Inl e \<Rightarrow> Inl e | Inr x \<Rightarrow> f x)"

subsection \<open>The builtin \<^verbatim>\<open>int()\<close>\<close>

text \<open>
  \<^verbatim>\<open>int(x)\<close> on a value of \<^verbatim>\<open>json.loads\<close>: an \<^verbatim>\<open>int\<close> is returned as it
  is, a \<^verbatim>\<open>bool\<close> is 0 or 1, a finite \<^verbatim>\<open>float\<close> is truncated towards zero, an
  infinity raises \<^verbatim>\<open>OverflowError\<close>, a NaN raises \<^verbatim>\<open>ValueError\<close>,
  \<^verbatim>\<open>None\<close>, a list and a dict raise \<^verbatim>\<open>TypeError\<close>. On a \<^verbatim>\<open>str\<close> the
  interpreter parses a decimal literal; which strings it accepts depends on the
  interpreter (Unicode digits and spaces, the limit on the number of digits), so the
  parse is the parameter \<open>int_str\<close>: \<open>Inr n\<close> when the string is accepted,
  \<open>Inl t\<close> when \<^verbatim>\<open>int()\<close> raises \<^verbatim>\<open>ValueError\<close>, with \<open>t\<close> the kind of
  the error's text.
\<close>

definition trunc_rat :: "rat \<Rightarrow> int" where
  "trunc_rat r = (if 0 \<le> r then \<lfloor>r\<rfloor> else \<lceil>r\<rceil>)"

fun py_int :: "(string \<Rightarrow> exn_text + int) \<Rightarrow> json \<Rightarrow> (py_exn \<times> exn_text) + int" where
  "py_int int_str JNull = Inl (TypeError, Latin1)"
| "py_int int_str (JBool b) = Inr (if b then 1 else 0)"
| "py_int int_str (JInt n) = Inr n"
| "py_int int_str (JFloat (Finite r)) = Inr (trunc_rat r)"
| "py_int int_str (JFloat Neg_zero) = Inr 0"
| "py_int int_str (JFloat Pos_inf) = Inl (OverflowError, Latin1)"
| "py_int int_str (JFloat Neg_inf) = Inl (OverflowError, Latin1)"
| "py_int int_str (JFloat NaN) = Inl (ValueError, Latin1)"
| "py_int int_str (JStr s) = (case int_str s of Inl t \<Rightarrow> Inl (ValueError, t) | Inr n \<Rightarrow> Inr n)"
| "py_int int_str (JList xs) = Inl (TypeError, Latin1)"
| "py_int int_str (JDict kvs) = Inl (TypeError, Latin1)"

text \<open>
  \<open>int_of_ascii\<close> is \<^verbatim>\<open>int(s)\<close> of CPython 3.11 for a \<^verbatim>\<open>str\<close> of ASCII
  characters: the blanks (the characters 9 to 13 and the space) are stripped at both
  ends, then an optional sign, then decimal digits, where one underscore may stand
  between two digits; more than 4300 digits (the interpreter's default limit, leading
  zeros counted, underscores not) are refused. The error's text is then ASCII. Beyond
  ASCII the function is not the interpreter's \<^verbatim>\<open>int()\<close>: it refuses every such
  string, where the interpreter accepts the other decimal digits and blanks of Unicode,
  and it takes the text as wide when the UTF-8 bytes hold a character above U+00FF (a
  lead byte from \<open>0xC4\<close> on), where the interpreter escapes the characters that are
  not printable and quotes 200 characters at most.
\<close>

definition is_space :: "char \<Rightarrow> bool" where
  "is_space c = (let n = (of_char c :: nat) in (9 \<le> n \<and> n \<le> 13) \<or> n = 32)"

definition digit_val :: "char \<Rightarrow> int option" where
  "digit_val c = (let n = (of_char c :: nat) in if 48 \<le> n \<and> n \<le> 57 then Some (int n - 48) else None)"

fun digits_acc :: "int \<Rightarrow> string \<Rightarrow> int option" where
  "digits_acc a [] = Some a"
| "digits_acc a [c] = (case digit_val c of None \<Rightarrow> None | Some v \<Rightarrow> Some (10 * a + v))"
| "digits_acc a (c # d # ds) =
     (if c = CHR ''_'' then
        (case digit_val d of None \<Rightarrow> None | Some v \<Rightarrow> digits_acc (10 * a + v) ds)
      else
        (case digit_val c of None \<Rightarrow> None | Some v \<Rightarrow> digits_acc (10 * a + v) (d # ds)))"

definition digits :: "string \<Rightarrow> int option" where
  "digits s =
     (if 4300 < length (filter (\<lambda>c. digit_val c \<noteq> None) s) then None
      else
        (case s of
           [] \<Rightarrow> None
         | c # cs \<Rightarrow> (case digit_val c of None \<Rightarrow> None | Some v \<Rightarrow> digits_acc v cs)))"

definition strip :: "string \<Rightarrow> string" where
  "strip s = rev (dropWhile is_space (rev (dropWhile is_space s)))"

definition signed_digits :: "string \<Rightarrow> int option" where
  "signed_digits s =
     (case strip s of
        [] \<Rightarrow> None
      | c # cs \<Rightarrow>
          if c = CHR ''-'' then map_option uminus (digits cs)
          else if c = CHR ''+'' then digits cs
          else digits (c # cs))"

definition text_of :: "string \<Rightarrow> exn_text" where
  "text_of s = (if list_ex (\<lambda>c. 196 \<le> (of_char c :: nat)) s then Wide else Latin1)"

definition int_of_ascii :: "string \<Rightarrow> exn_text + int" where
  "int_of_ascii s = (case signed_digits s of None \<Rightarrow> Inl (text_of s) | Some n \<Rightarrow> Inr n)"

subsection \<open>The operators \<^verbatim>\<open>in\<close> and \<^verbatim>\<open>[]\<close> with a \<^verbatim>\<open>str\<close> on the left\<close>

text \<open>
  \<^verbatim>\<open>field in data\<close>: a key of a dict, an element of a list, a substring of a
  \<^verbatim>\<open>str\<close>; on \<^verbatim>\<open>None\<close>, a bool and a number it raises \<^verbatim>\<open>TypeError\<close>
  (the argument is not iterable).
\<close>

fun py_in :: "string \<Rightarrow> json \<Rightarrow> py_exn + bool" where
  "py_in field (JDict kvs) = Inr (map_of kvs field \<noteq> None)"
| "py_in field (JList xs) = Inr (JStr field \<in> set xs)"
| "py_in field (JStr s) = Inr (sublist field s)"
| "py_in field JNull = Inl TypeError"
| "py_in field (JBool b) = Inl TypeError"
| "py_in field (JInt n) = Inl TypeError"
| "py_in field (JFloat f) = Inl TypeError"

text \<open>
  \<^verbatim>\<open>data[field]\<close> with a \<^verbatim>\<open>str\<close> as the index: the value of the key in a dict
  (\<^verbatim>\<open>KeyError\<close> without it), \<^verbatim>\<open>TypeError\<close> on everything else (list and string
  indices must be integers, the other values are not subscriptable).
\<close>

fun py_getitem :: "json \<Rightarrow> string \<Rightarrow> py_exn + json" where
  "py_getitem (JDict kvs) field = (case map_of kvs field of None \<Rightarrow> Inl KeyError | Some v \<Rightarrow> Inr v)"
| "py_getitem (JList xs) field = Inl TypeError"
| "py_getitem (JStr s) field = Inl TypeError"
| "py_getitem JNull field = Inl TypeError"
| "py_getitem (JBool b) field = Inl TypeError"
| "py_getitem (JInt n) field = Inl TypeError"
| "py_getitem (JFloat f) field = Inl TypeError"

section \<open>Requests, the environment and responses\<close>

text \<open>
  A request is its path (\<^verbatim>\<open>self.path\<close>) and the outcome of the three lines that both
  POST handlers start with,
  \<^verbatim>\<open>content_length = int(self.headers['Content-Length'])\<close>,
  \<^verbatim>\<open>post_data = self.rfile.read(content_length)\<close>,
  \<^verbatim>\<open>data = json.loads(post_data.decode('utf-8'))\<close>:
  \<open>Inr data\<close> when they return, \<open>Inl e\<close> when one of them raises \<open>e\<close>
  (\<^verbatim>\<open>JSONDecodeError\<close> when the body is not JSON, \<^verbatim>\<open>UnicodeDecodeError\<close> when it
  is not UTF-8, \<^verbatim>\<open>TypeError\<close> or \<^verbatim>\<open>ValueError\<close> from the header).
\<close>

record request =
  path :: string
  read_json :: "py_exn + json"

text \<open>
  What the handlers read from outside the request: the clock, as \<^verbatim>\<open>time.time()\<close> and
  as \<^verbatim>\<open>int(time.time() * 1000)\<close>, and the draw \<^verbatim>\<open>random.random()\<close>, a float in
  \<open>[0, 1)\<close>.
\<close>

record world =
  time_time :: pyfloat
  time_ms :: int
  random_random :: rat

text \<open>
  A response is one of: \<^verbatim>\<open>send_response(code)\<close> followed by the handler's own
  \<^verbatim>\<open>send_header\<close> calls and \<^verbatim>\<open>wfile.write(json.dumps(body))\<close>;
  \<^verbatim>\<open>send_error(code, message)\<close>, the library's HTML error page, on which the handler
  sets no header; or the static file handler \<^verbatim>\<open>super().do_GET()\<close> run on a path;
  or no response at all, when an exception leaves the handler: the server logs it and
  closes the connection with nothing sent.
  \<^verbatim>\<open>json.dumps\<close> accepts every dictionary the handlers build, and writing to the
  socket is taken to succeed.
  The text \<^verbatim>\<open>str(e)\<close> of an exception depends on the interpreter, so a message keeps
  the exception itself.
\<close>

datatype message =
    Not_Found
  | Missing_required_field string
  | Missing_proof_data
  | Internal_server_error py_exn

datatype response =
    Json_response nat "(string \<times> string) list" json
  | Send_error nat message
  | Static_GET string
  | No_response py_exn

fun status :: "response \<Rightarrow> nat option" where
  "status (Json_response code hs body) = Some code"
| "status (Send_error code msg) = Some code"
| "status (Static_GET p) = None"
| "status (No_response e) = None"

fun headers :: "response \<Rightarrow> (string \<times> string) list" where
  "headers (Json_response code hs body) = hs"
| "headers (Send_error code msg) = []"
| "headers (Static_GET p) = []"
| "headers (No_response e) = []"

definition json_headers :: "(string \<times> string) list" where
  "json_headers =
     [(''Content-type'', ''application/json''), (''Access-Control-Allow-Origin'', ''*'')]"

section \<open>The handlers\<close>

definition required_fields :: "string list" where
  "required_fields =
     [''user_address'', ''pool_id'', ''user_balance'', ''withdrawal_amount'', ''pool_liquidity'']"

text \<open>
  The loop \<^verbatim>\<open>for field in required_fields: if field not in data: ...; return\<close>:
  the first field that is not in \<open>data\<close>, if any.
\<close>

fun first_missing :: "json \<Rightarrow> string list \<Rightarrow> py_exn + string option" where
  "first_missing data [] = Inr None"
| "first_missing data (field # rest) =
     bind_exn (py_in field data)
       (\<lambda>present. if \<not> present then Inr (Some field) else first_missing data rest)"

text \<open>The dict literal \<^verbatim>\<open>proof_data\<close>; its values are evaluated in the order written.\<close>

definition mock_proof_data ::
  "(string \<Rightarrow> exn_text + int) \<Rightarrow> world \<Rightarrow> json \<Rightarrow> (py_exn \<times> exn_text) + json" where
  "mock_proof_data int_str w data =
     bind_exn (latin1 (py_getitem data ''user_address'')) (\<lambda>user_address.
     bind_exn (latin1 (py_getitem data ''pool_id'')) (\<lambda>v1.
     bind_exn (py_int int_str v1) (\<lambda>pool_id.
     bind_exn (latin1 (py_getitem data ''user_balance'')) (\<lambda>v2.
     bind_exn (py_int int_str v2) (\<lambda>user_balance.
     bind_exn (latin1 (py_getitem data ''withdrawal_amount'')) (\<lambda>v3.
     bind_exn (py_int int_str v3) (\<lambda>withdrawal_amount.
     bind_exn (latin1 (py_getitem data ''pool_liquidity'')) (\<lambda>v4.
     bind_exn (py_int int_str v4) (\<lambda>pool_liquidity.
       Inr (JDict
         [(''proof'', JStr (''0x'' @ replicate 2000 (CHR ''a''))),
          (''public_inputs'', JStr (''0x'' @ replicate 100 (CHR ''b''))),
          (''vkey_hash'', JStr (''0x'' @ replicate 64 (CHR ''c''))),
          (''mode'', JStr ''compressed''),
          (''user_address'', user_address),
          (''pool_id'', JInt pool_id),
          (''user_balance'', JInt user_balance),
          (''withdrawal_amount'', JInt withdrawal_amount),
          (''pool_liquidity'', JInt pool_liquidity),
          (''timestamp'', JInt (time_ms w)),
          (''is_valid'', JBool True)]))))))))))"

text \<open>
  \<^verbatim>\<open>handle_generate_proof\<close>: the body of the \<^verbatim>\<open>try\<close> as a result, and the
  \<^verbatim>\<open>except Exception as e\<close> around it. In the \<^verbatim>\<open>except\<close> clause,
  \<^verbatim>\<open>send_error(500, f"Internal server error: {str(e)}")\<close> sends the error page when
  the text of \<open>e\<close> is latin-1; when it is wide, \<^verbatim>\<open>send_error\<close> raises
  \<^verbatim>\<open>UnicodeEncodeError\<close> before anything is written, and that exception leaves the
  handler.
\<close>

definition generate_proof_try ::
  "(string \<Rightarrow> exn_text + int) \<Rightarrow> world \<Rightarrow> request \<Rightarrow> (py_exn \<times> exn_text) + response" where
  "generate_proof_try int_str w req =
     bind_exn (latin1 (read_json req)) (\<lambda>data.
     bind_exn (latin1 (first_missing data required_fields)) (\<lambda>missing.
       case missing of
         Some field \<Rightarrow> Inr (Send_error 400 (Missing_required_field field))
       | None \<Rightarrow>
           bind_exn (mock_proof_data int_str w data) (\<lambda>proof_data.
             Inr (Json_response 200 json_headers
               (JDict [(''success'', JBool True), (''data'', proof_data)])))))"

definition handle_generate_proof ::
  "(string \<Rightarrow> exn_text + int) \<Rightarrow> world \<Rightarrow> request \<Rightarrow> response" where
  "handle_generate_proof int_str w req =
     (case generate_proof_try int_str w req of
        Inr r \<Rightarrow> r
      | Inl (e, Latin1) \<Rightarrow> Send_error 500 (Internal_server_error e)
      | Inl (e, Wide) \<Rightarrow> No_response UnicodeEncodeError)"

text \<open>
  \<^verbatim>\<open>handle_verify_proof\<close>. Every exception of its \<^verbatim>\<open>try\<close> has a latin-1 text,
  so its \<^verbatim>\<open>except\<close> clause always sends the error page.
  \<^verbatim>\<open>is_valid = random.random() > 0.1\<close>: the literal \<^verbatim>\<open>0.1\<close> is the double nearest
  to one tenth, \<open>3602879701896397 / 2 ^ 55\<close>.
\<close>

definition float_0_1 :: rat where
  "float_0_1 = 3602879701896397 / 36028797018963968"

definition verify_proof_try :: "world \<Rightarrow> request \<Rightarrow> py_exn + response" where
  "verify_proof_try w req =
     bind_exn (read_json req) (\<lambda>data.
     bind_exn (py_in ''proof_data'' data) (\<lambda>present.
       if \<not> present then Inr (Send_error 400 Missing_proof_data)
       else
         bind_exn (py_getitem data ''proof_data'') (\<lambda>proof_data.
           let is_valid = (random_random w > float_0_1) in
             Inr (Json_response 200 json_headers
               (JDict [(''success'', JBool True), (''valid'', JBool is_valid),
                       (''data'', proof_data)])))))"

definition handle_verify_proof :: "world \<Rightarrow> request \<Rightarrow> response" where
  "handle_verify_proof w req =
     (case verify_proof_try w req of
        Inr r \<Rightarrow> r
      | Inl e \<Rightarrow> Send_error 500 (Internal_server_error e))"

definition handle_health :: "world \<Rightarrow> response" where
  "handle_health w =
     Json_response 200 json_headers
       (JDict [(''status'', JStr ''healthy''), (''timestamp'', JFloat (time_time w)),
               (''version'', JStr ''1.0.0'')])"

text \<open>The two methods of \<^verbatim>\<open>WebHandler\<close> that the HTTP server dispatches to.\<close>

definition do_GET :: "request \<Rightarrow> response" where
  "do_GET req = Static_GET (if path req = ''/'' then ''/index.html'' else path req)"

definition do_POST :: "(string \<Rightarrow> exn_text + int) \<Rightarrow> world \<Rightarrow> request \<Rightarrow> response" where
  "do_POST int_str w req =
     (if path req = ''/api/generate-proof'' then handle_generate_proof int_str w req
      else if path req = ''/api/verify-proof'' then handle_verify_proof w req
      else if path req = ''/api/health'' then handle_health w
      else Send_error 404 Not_Found)"


section \<open>Reading a response\<close>

fun body :: "response \<Rightarrow> json option" where
  "body (Json_response code hs b) = Some b"
| "body (Send_error code msg) = None"
| "body (Static_GET p) = None"
| "body (No_response e) = None"

text \<open>An entry of the JSON object a response carries, and an entry of its \<^verbatim>\<open>"data"\<close> object.\<close>

definition top_field :: "string \<Rightarrow> response \<Rightarrow> json option" where
  "top_field k r = (case body r of Some (JDict kvs) \<Rightarrow> map_of kvs k | _ \<Rightarrow> None)"

definition data_field :: "string \<Rightarrow> response \<Rightarrow> json option" where
  "data_field k r = (case top_field ''data'' r of Some (JDict kvs) \<Rightarrow> map_of kvs k | _ \<Rightarrow> None)"

definition has_cors :: "response \<Rightarrow> bool" where
  "has_cors r = (map_of (headers r) ''Access-Control-Allow-Origin'' = Some ''*'')"

section \<open>What the specification asks for\<close>

text \<open>
  The specification words three of its requirements over things the handlers have no
  input for: the reachability of the proof engine and of the verifier, and a
  public-demo-mode option of the deployment. These definitions follow the
  specification's words, to be compared with what the handlers return.
\<close>

definition spec_health_status :: "bool \<Rightarrow> bool \<Rightarrow> string" where
  "spec_health_status proof_service_up verifier_up =
     (if proof_service_up \<and> verifier_up then ''healthy''
      else if proof_service_up \<or> verifier_up then ''degraded''
      else ''unhealthy'')"

definition spec_cors_allowed :: "bool \<Rightarrow> response \<Rightarrow> bool" where
  "spec_cors_allowed public_demo_mode r = (has_cors r \<longrightarrow> public_demo_mode)"

definition spec_generate_status :: "bool \<Rightarrow> nat option \<Rightarrow> bool" where
  "spec_generate_status proof_service_up code = (\<not> proof_service_up \<longrightarrow> code = Some 503)"

section \<open>Concrete requests\<close>

definition example_world :: world where
  "example_world =
     \<lparr>time_time = Finite 1700000000, time_ms = 1700000000000, random_random = 1 / 2\<rparr>"

definition generate_request :: "json \<Rightarrow> request" where
  "generate_request data = \<lparr>path = ''/api/generate-proof'', read_json = Inr data\<rparr>"

definition verify_request :: "json \<Rightarrow> request" where
  "verify_request data = \<lparr>path = ''/api/verify-proof'', read_json = Inr data\<rparr>"

definition withdrawal :: "json \<Rightarrow> json \<Rightarrow> json \<Rightarrow> json \<Rightarrow> json \<Rightarrow> json" where
  "withdrawal user_address pool_id user_balance withdrawal_amount pool_liquidity =
     JDict [(''user_address'', user_address), (''pool_id'', pool_id),
            (''user_balance'', user_balance), (''withdrawal_amount'', withdrawal_amount),
            (''pool_liquidity'', pool_liquidity)]"

section \<open>Facts about the handlers\<close>

text \<open>
  The shape of every response of the two POST handlers, the response to a JSON object
  with the five fields, and the 400 of both handlers for a JSON object that lacks a
  field: \<^verbatim>\<open>handle_generate_proof\<close> names the first absent field in the order of
  \<^verbatim>\<open>required_fields\<close>.
\<close>

lemma bind_exn_simps [simp]:
  "bind_exn (Inl e) f = Inl e" "bind_exn (Inr x) f = f x"
  by (simp_all add: bind_exn_def)

lemma latin1_simps [simp]:
  "latin1 (Inl e) = Inl (e, Latin1)" "latin1 (Inr x) = Inr x"
  by (simp_all add: latin1_def)

lemma first_missing_dict:
  "first_missing (JDict kvs) fs = Inr (find (\<lambda>f. map_of kvs f = None) fs)"
  by (induction fs) auto

lemma first_missing_Some:
  "first_missing data fs = Inr (Some f) \<Longrightarrow> f \<in> set fs \<and> py_in f data = Inr False"
proof (induction fs)
  case Nil
  then show ?case by simp
next
  case (Cons g gs)
  then show ?case
    by (cases "py_in g data") (auto split: if_splits)
qed

lemma py_getitem_Inr:
  "py_getitem data field = Inr v \<Longrightarrow> \<exists>kvs. data = JDict kvs \<and> map_of kvs field = Some v"
  by (cases data) (auto split: option.splits)

text \<open>
  The first of the four coercions that raises decides the exception of the
  \<^verbatim>\<open>proof_data\<close> literal.
\<close>

lemma mock_proof_data_dict:
  assumes "map_of kvs ''user_address'' = Some user_address"
    and "map_of kvs ''pool_id'' = Some v1"
    and "map_of kvs ''user_balance'' = Some v2"
    and "map_of kvs ''withdrawal_amount'' = Some v3"
    and "map_of kvs ''pool_liquidity'' = Some v4"
  shows "mock_proof_data int_str w (JDict kvs) =
     bind_exn (py_int int_str v1) (\<lambda>pool_id.
     bind_exn (py_int int_str v2) (\<lambda>user_balance.
     bind_exn (py_int int_str v3) (\<lambda>withdrawal_amount.
     bind_exn (py_int int_str v4) (\<lambda>pool_liquidity.
       Inr (JDict
         [(''proof'', JStr (''0x'' @ replicate 2000 (CHR ''a''))),
          (''public_inputs'', JStr (''0x'' @ replicate 100 (CHR ''b''))),
          (''vkey_hash'', JStr (''0x'' @ replicate 64 (CHR ''c''))),
          (''mode'', JStr ''compressed''),
          (''user_address'', user_address),
          (''pool_id'', JInt pool_id),
          (''user_balance'', JInt user_balance),
          (''withdrawal_amount'', JInt withdrawal_amount),
          (''pool_liquidity'', JInt pool_liquidity),
          (''timestamp'', JInt (time_ms w)),
          (''is_valid'', JBool True)])))))"
  using assms unfolding mock_proof_data_def by simp

lemma mock_proof_data_Inr:
  assumes "mock_proof_data int_str w data = Inr pd"
  shows "\<exists>kvs ua v1 v2 v3 v4 p b a l.
     data = JDict kvs
     \<and> map_of kvs ''user_address'' = Some ua
     \<and> map_of kvs ''pool_id'' = Some v1 \<and> py_int int_str v1 = Inr p
     \<and> map_of kvs ''user_balance'' = Some v2 \<and> py_int int_str v2 = Inr b
     \<and> map_of kvs ''withdrawal_amount'' = Some v3 \<and> py_int int_str v3 = Inr a
     \<and> map_of kvs ''pool_liquidity'' = Some v4 \<and> py_int int_str v4 = Inr l
     \<and> pd = JDict
         [(''proof'', JStr (''0x'' @ replicate 2000 (CHR ''a''))),
          (''public_inputs'', JStr (''0x'' @ replicate 100 (CHR ''b''))),
          (''vkey_hash'', JStr (''0x'' @ replicate 64 (CHR ''c''))),
          (''mode'', JStr ''compressed''),
          (''user_address'', ua),
          (''pool_id'', JInt p),
          (''user_balance'', JInt b),
          (''withdrawal_amount'', JInt a),
          (''pool_liquidity'', JInt l),
          (''timestamp'', JInt (time_ms w)),
          (''is_valid'', JBool True)]"
proof -
  obtain ua where ua: "py_getitem data ''user_address'' = Inr ua"
    using assms unfolding mock_proof_data_def
    by (cases "py_getitem data ''user_address''") simp_all
  then obtain kvs where kvs: "data = JDict kvs" and l0: "map_of kvs ''user_address'' = Some ua"
    using py_getitem_Inr by blast
  obtain v1 where l1: "map_of kvs ''pool_id'' = Some v1"
    using assms ua unfolding mock_proof_data_def kvs
    by (cases "map_of kvs ''pool_id''") simp_all
  obtain v2 where l2: "map_of kvs ''user_balance'' = Some v2"
    using assms ua l1 unfolding mock_proof_data_def kvs
    by (cases "map_of kvs ''user_balance''") (simp_all add: bind_exn_def split: sum.splits)
  obtain v3 where l3: "map_of kvs ''withdrawal_amount'' = Some v3"
    using assms ua l1 l2 unfolding mock_proof_data_def kvs
    by (cases "map_of kvs ''withdrawal_amount''") (simp_all add: bind_exn_def split: sum.splits)
  obtain v4 where l4: "map_of kvs ''pool_liquidity'' = Some v4"
    using assms ua l1 l2 l3 unfolding mock_proof_data_def kvs
    by (cases "map_of kvs ''pool_liquidity''") (simp_all add: bind_exn_def split: sum.splits)
  from assms show ?thesis
    unfolding kvs mock_proof_data_dict [OF l0 l1 l2 l3 l4]
    using l0 l1 l2 l3 l4
    by (auto simp add: bind_exn_def split: sum.splits)
qed

lemma generate_proof_success:
  assumes "read_json req = Inr (JDict kvs)"
    and "map_of kvs ''user_address'' = Some user_address"
    and "map_of kvs ''pool_id'' = Some v1" and "py_int int_str v1 = Inr pool_id"
    and "map_of kvs ''user_balance'' = Some v2" and "py_int int_str v2 = Inr user_balance"
    and "map_of kvs ''withdrawal_amount'' = Some v3"
    and "py_int int_str v3 = Inr withdrawal_amount"
    and "map_of kvs ''pool_liquidity'' = Some v4" and "py_int int_str v4 = Inr pool_liquidity"
  shows "handle_generate_proof int_str w req =
     Json_response 200 json_headers
       (JDict [(''success'', JBool True),
         (''data'', JDict
           [(''proof'', JStr (''0x'' @ replicate 2000 (CHR ''a''))),
            (''public_inputs'', JStr (''0x'' @ replicate 100 (CHR ''b''))),
            (''vkey_hash'', JStr (''0x'' @ replicate 64 (CHR ''c''))),
            (''mode'', JStr ''compressed''),
            (''user_address'', user_address),
            (''pool_id'', JInt pool_id),
            (''user_balance'', JInt user_balance),
            (''withdrawal_amount'', JInt withdrawal_amount),
            (''pool_liquidity'', JInt pool_liquidity),
            (''timestamp'', JInt (time_ms w)),
            (''is_valid'', JBool True)])])"
proof -
  have "first_missing (JDict kvs) required_fields = Inr None"
    using assms by (simp add: first_missing_dict required_fields_def)
  then show ?thesis
    using assms(1,4,6,8,10)
    by (simp add: handle_generate_proof_def generate_proof_try_def
        mock_proof_data_dict [OF assms(2,3,5,7,9)])
qed

lemma generate_proof_cases:
  "(\<exists>kvs ua v1 v2 v3 v4 p b a l.
      read_json req = Inr (JDict kvs)
      \<and> map_of kvs ''user_address'' = Some ua
      \<and> map_of kvs ''pool_id'' = Some v1 \<and> py_int int_str v1 = Inr p
      \<and> map_of kvs ''user_balance'' = Some v2 \<and> py_int int_str v2 = Inr b
      \<and> map_of kvs ''withdrawal_amount'' = Some v3 \<and> py_int int_str v3 = Inr a
      \<and> map_of kvs ''pool_liquidity'' = Some v4 \<and> py_int int_str v4 = Inr l
      \<and> handle_generate_proof int_str w req =
      Json_response 200 json_headers
       (JDict [(''success'', JBool True),
         (''data'', JDict
           [(''proof'', JStr (''0x'' @ replicate 2000 (CHR ''a''))),
            (''public_inputs'', JStr (''0x'' @ replicate 100 (CHR ''b''))),
            (''vkey_hash'', JStr (''0x'' @ replicate 64 (CHR ''c''))),
            (''mode'', JStr ''compressed''),
            (''user_address'', ua),
            (''pool_id'', JInt p),
            (''user_balance'', JInt b),
            (''withdrawal_amount'', JInt a),
            (''pool_liquidity'', JInt l),
            (''timestamp'', JInt (time_ms w)),
            (''is_valid'', JBool True)])])) \<or>
   (\<exists>data f. read_json req = Inr data \<and> f \<in> set required_fields
      \<and> py_in f data = Inr False
      \<and> handle_generate_proof int_str w req = Send_error 400 (Missing_required_field f)) \<or>
   (\<exists>e. handle_generate_proof int_str w req = Send_error 500 (Internal_server_error e)) \<or>
   handle_generate_proof int_str w req = No_response UnicodeEncodeError"
proof (cases "read_json req")
  case (Inl e)
  then show ?thesis by (simp add: handle_generate_proof_def generate_proof_try_def)
next
  case (Inr data)
  show ?thesis
  proof (cases "first_missing data required_fields")
    case (Inl e)
    with Inr show ?thesis by (simp add: handle_generate_proof_def generate_proof_try_def)
  next
    case missing: (Inr m)
    show ?thesis
    proof (cases m)
      case (Some f)
      with missing have "f \<in> set required_fields \<and> py_in f data = Inr False"
        using first_missing_Some by blast
      moreover have "handle_generate_proof int_str w req =
          Send_error 400 (Missing_required_field f)"
        using Inr missing Some by (simp add: handle_generate_proof_def generate_proof_try_def)
      ultimately show ?thesis using Inr by blast
    next
      case None
      show ?thesis
      proof (cases "mock_proof_data int_str w data")
        case raised: (Inl r)
        obtain e t where r: "r = (e, t)" by (cases r)
        show ?thesis
          using Inr missing None raised r
          by (cases t) (simp_all add: handle_generate_proof_def generate_proof_try_def)
      next
        case built: (Inr pd)
        from mock_proof_data_Inr [OF built] obtain kvs ua v1 v2 v3 v4 p b a l where
          d: "data = JDict kvs"
          and l: "map_of kvs ''user_address'' = Some ua"
            "map_of kvs ''pool_id'' = Some v1" "py_int int_str v1 = Inr p"
            "map_of kvs ''user_balance'' = Some v2" "py_int int_str v2 = Inr b"
            "map_of kvs ''withdrawal_amount'' = Some v3" "py_int int_str v3 = Inr a"
            "map_of kvs ''pool_liquidity'' = Some v4" "py_int int_str v4 = Inr l"
          by blast
        from Inr d have rj: "read_json req = Inr (JDict kvs)" by simp
        from generate_proof_success [OF rj l, of w] rj l show ?thesis by blast
      qed
    qed
  qed
qed

lemma verify_proof_cases:
  "(\<exists>pd. handle_verify_proof w req =
      Json_response 200 json_headers
       (JDict [(''success'', JBool True), (''valid'', JBool (float_0_1 < random_random w)),
               (''data'', pd)])) \<or>
   handle_verify_proof w req = Send_error 400 Missing_proof_data \<or>
   (\<exists>e. handle_verify_proof w req = Send_error 500 (Internal_server_error e))"
  unfolding handle_verify_proof_def verify_proof_try_def bind_exn_def
  by (simp split: sum.splits)

lemma generate_proof_missing_field:
  assumes "read_json req = Inr (JDict kvs)"
    and "find (\<lambda>f. map_of kvs f = None) required_fields = Some field"
  shows "handle_generate_proof int_str w req = Send_error 400 (Missing_required_field field)"
  using assms
  by (simp add: handle_generate_proof_def generate_proof_try_def first_missing_dict)

lemma verify_proof_missing_field:
  assumes "read_json req = Inr (JDict kvs)" and "map_of kvs ''proof_data'' = None"
  shows "handle_verify_proof w req = Send_error 400 Missing_proof_data"
  using assms by (simp add: handle_verify_proof_def verify_proof_try_def)

lemma generate_request_withdrawal:
  assumes "py_int int_str v1 = Inr pool_id" and "py_int int_str v2 = Inr user_balance"
    and "py_int int_str v3 = Inr withdrawal_amount" and "py_int int_str v4 = Inr pool_liquidity"
  shows "handle_generate_proof int_str w (generate_request (withdrawal ua v1 v2 v3 v4)) =
     Json_response 200 json_headers
       (JDict [(''success'', JBool True),
         (''data'', JDict
           [(''proof'', JStr (''0x'' @ replicate 2000 (CHR ''a''))),
            (''public_inputs'', JStr (''0x'' @ replicate 100 (CHR ''b''))),
            (''vkey_hash'', JStr (''0x'' @ replicate 64 (CHR ''c''))),
            (''mode'', JStr ''compressed''),
            (''user_address'', ua),
            (''pool_id'', JInt pool_id),
            (''user_balance'', JInt user_balance),
            (''withdrawal_amount'', JInt withdrawal_amount),
            (''pool_liquidity'', JInt pool_liquidity),
            (''timestamp'', JInt (time_ms w)),
            (''is_valid'', JBool True)])])"
proof (rule generate_proof_success)
  show "read_json (generate_request (withdrawal ua v1 v2 v3 v4)) =
      Inr (JDict [(''user_address'', ua), (''pool_id'', v1), (''user_balance'', v2),
                  (''withdrawal_amount'', v3), (''pool_liquidity'', v4)])"
    by (simp add: generate_request_def withdrawal_def)
qed (use assms in simp_all)

lemma int_of_ascii_500: "int_of_ascii ''500'' = Inr 500"
  by (simp add: int_of_ascii_def signed_digits_def strip_def is_space_def digits_def
      digit_val_def)

lemma int_of_ascii_abc: "int_of_ascii ''abc'' = Inl Latin1"
  by (simp add: int_of_ascii_def signed_digits_def strip_def is_space_def digits_def
      digit_val_def text_of_def)

lemma int_of_ascii_euro:
  "int_of_ascii [CHR 0xE2, CHR 0x82, CHR 0xAC, CHR ''5''] = Inl Wide"
  by (simp add: int_of_ascii_def signed_digits_def strip_def is_space_def digits_def
      digit_val_def text_of_def)

section \<open>Verification: the validity flag\<close>

text \<open>
  C1. The specification asks that the validity flag returned by verify-proof be a
  deterministic function of the artifact: two calls with the identical
  \<^verbatim>\<open>proof_data\<close> yield the identical flag, with no dependence on a random draw.
  \<^verbatim>\<open>handle_verify_proof\<close> computes the flag as \<^verbatim>\<open>random.random() > 0.1\<close>: the same
  request is answered with \<^verbatim>\<open>valid: true\<close> under the draw 1/2 and with
  \<^verbatim>\<open>valid: false\<close> under the draw 1/20.
\<close>

theorem verify_proof_flag_differs:
  "top_field ''valid''
     (handle_verify_proof (example_world\<lparr>random_random := 1 / 2\<rparr>)
        (verify_request (JDict [(''proof_data'', JStr ''0xab'')]))) = Some (JBool True)
   \<and> top_field ''valid''
     (handle_verify_proof (example_world\<lparr>random_random := 1 / 20\<rparr>)
        (verify_request (JDict [(''proof_data'', JStr ''0xab'')]))) = Some (JBool False)"
  by (simp add: handle_verify_proof_def verify_proof_try_def verify_request_def
      example_world_def float_0_1_def top_field_def)

text \<open>
  C1, as the code has it. For a JSON object with a \<^verbatim>\<open>proof_data\<close> entry the
  response is 200, echoes \<^verbatim>\<open>proof_data\<close>, and its validity flag is the outcome of
  the draw alone, whatever the artifact: two calls with the identical
  \<^verbatim>\<open>proof_data\<close> agree on the flag exactly when their draws fall on the same side
  of 0.1.
\<close>

theorem verify_proof_valid_is_draw:
  assumes "read_json req = Inr (JDict kvs)"
    and "map_of kvs ''proof_data'' = Some proof_data"
  shows "handle_verify_proof w req =
     Json_response 200 json_headers
       (JDict [(''success'', JBool True), (''valid'', JBool (random_random w > float_0_1)),
               (''data'', proof_data)])
   \<and> (top_field ''valid'' (handle_verify_proof w req) =
        top_field ''valid'' (handle_verify_proof w' req)
      \<longleftrightarrow> (random_random w > float_0_1) = (random_random w' > float_0_1))"
  using assms
  by (simp add: handle_verify_proof_def verify_proof_try_def top_field_def)

theorem verify_proof_valid_is_draw_witness:
  "handle_verify_proof example_world
     (verify_request (JDict [(''proof_data'', JDict [(''proof'', JStr ''0x01'')])])) =
   Json_response 200 json_headers
     (JDict [(''success'', JBool True), (''valid'', JBool True),
             (''data'', JDict [(''proof'', JStr ''0x01'')])])"
  using verify_proof_valid_is_draw
    [of "verify_request (JDict [(''proof_data'', JDict [(''proof'', JStr ''0x01'')])])"
        "[(''proof_data'', JDict [(''proof'', JStr ''0x01'')])]"
        "JDict [(''proof'', JStr ''0x01'')]" example_world example_world]
  by (simp add: verify_request_def example_world_def float_0_1_def)

section \<open>Proof generation\<close>

text \<open>
  C2. The specification asks that a generate-proof request made while the proof engine
  is unreachable be answered with 503 and \<^verbatim>\<open>ProofServiceUnavailable\<close>, never with a
  fabricated artifact. \<^verbatim>\<open>handle_generate_proof\<close> contacts no engine and has no input
  for its state: this request is answered with 200 and the fixed mock proof, so it is
  answered so while the engine is unreachable too.
\<close>

theorem generate_proof_fabricates:
  "status (handle_generate_proof int_of_ascii example_world
     (generate_request (withdrawal (JStr ''alice'') (JInt 1) (JInt 100) (JInt 40) (JInt 1000))))
     = Some 200
   \<and> data_field ''proof'' (handle_generate_proof int_of_ascii example_world
     (generate_request (withdrawal (JStr ''alice'') (JInt 1) (JInt 100) (JInt 40) (JInt 1000))))
     = Some (JStr (''0x'' @ replicate 2000 (CHR ''a'')))
   \<and> \<not> spec_generate_status False (status (handle_generate_proof int_of_ascii example_world
     (generate_request (withdrawal (JStr ''alice'') (JInt 1) (JInt 100) (JInt 40) (JInt 1000)))))"
  by (simp add: generate_request_withdrawal [of _ _ 1 _ 100 _ 40 _ 1000]
      data_field_def top_field_def spec_generate_status_def)

text \<open>
  C2, as the code has it. Whatever the state of a proof engine, a generate-proof
  request is never answered with 503. It is answered with 200 exactly when its body is a
  JSON object with the five fields whose numeric ones \<^verbatim>\<open>int()\<close> accepts, and then
  with the fixed mock proof marked valid. Otherwise a response that is sent is 400
  naming a required field that is not in the body, or 500 for an exception. (The
  remaining case, in which \<^verbatim>\<open>send_error\<close> itself raises and nothing is sent, is the
  last disjunct.)
\<close>

theorem generate_proof_never_unavailable:
  "status (handle_generate_proof int_str w req) \<noteq> Some 503
   \<and> (status (handle_generate_proof int_str w req) = Some 200 \<longleftrightarrow>
       (\<exists>kvs ua v1 v2 v3 v4 p b a l.
          read_json req = Inr (JDict kvs)
          \<and> map_of kvs ''user_address'' = Some ua
          \<and> map_of kvs ''pool_id'' = Some v1 \<and> py_int int_str v1 = Inr p
          \<and> map_of kvs ''user_balance'' = Some v2 \<and> py_int int_str v2 = Inr b
          \<and> map_of kvs ''withdrawal_amount'' = Some v3 \<and> py_int int_str v3 = Inr a
          \<and> map_of kvs ''pool_liquidity'' = Some v4 \<and> py_int int_str v4 = Inr l))
   \<and> ((status (handle_generate_proof int_str w req) = Some 200
        \<and> data_field ''proof'' (handle_generate_proof int_str w req) =
            Some (JStr (''0x'' @ replicate 2000 (CHR ''a'')))
        \<and> data_field ''is_valid'' (handle_generate_proof int_str w req) = Some (JBool True))
     \<or> (\<exists>data field. read_json req = Inr data \<and> field \<in> set required_fields
          \<and> py_in field data = Inr False
          \<and> handle_generate_proof int_str w req =
              Send_error 400 (Missing_required_field field))
     \<or> (\<exists>e. handle_generate_proof int_str w req = Send_error 500 (Internal_server_error e))
     \<or> handle_generate_proof int_str w req = No_response UnicodeEncodeError)"
proof (intro conjI)
  show "status (handle_generate_proof int_str w req) \<noteq> Some 503"
    using generate_proof_cases [where req = req and int_str = int_str and w = w] by auto
next
  show "status (handle_generate_proof int_str w req) = Some 200 \<longleftrightarrow>
       (\<exists>kvs ua v1 v2 v3 v4 p b a l.
          read_json req = Inr (JDict kvs)
          \<and> map_of kvs ''user_address'' = Some ua
          \<and> map_of kvs ''pool_id'' = Some v1 \<and> py_int int_str v1 = Inr p
          \<and> map_of kvs ''user_balance'' = Some v2 \<and> py_int int_str v2 = Inr b
          \<and> map_of kvs ''withdrawal_amount'' = Some v3 \<and> py_int int_str v3 = Inr a
          \<and> map_of kvs ''pool_liquidity'' = Some v4 \<and> py_int int_str v4 = Inr l)"
    (is "?ok \<longleftrightarrow> ?wf")
  proof
    assume ?ok
    with generate_proof_cases [where req = req and int_str = int_str and w = w] show ?wf by auto
  next
    assume ?wf
    then obtain kvs ua v1 v2 v3 v4 p b a l where
      "read_json req = Inr (JDict kvs)"
      "map_of kvs ''user_address'' = Some ua"
      "map_of kvs ''pool_id'' = Some v1" "py_int int_str v1 = Inr p"
      "map_of kvs ''user_balance'' = Some v2" "py_int int_str v2 = Inr b"
      "map_of kvs ''withdrawal_amount'' = Some v3" "py_int int_str v3 = Inr a"
      "map_of kvs ''pool_liquidity'' = Some v4" "py_int int_str v4 = Inr l"
      by blast
    from generate_proof_success [OF this, of w] show ?ok by simp
  qed
next
  show "(status (handle_generate_proof int_str w req) = Some 200
        \<and> data_field ''proof'' (handle_generate_proof int_str w req) =
            Some (JStr (''0x'' @ replicate 2000 (CHR ''a'')))
        \<and> data_field ''is_valid'' (handle_generate_proof int_str w req) = Some (JBool True))
     \<or> (\<exists>data field. read_json req = Inr data \<and> field \<in> set required_fields
          \<and> py_in field data = Inr False
          \<and> handle_generate_proof int_str w req =
              Send_error 400 (Missing_required_field field))
     \<or> (\<exists>e. handle_generate_proof int_str w req = Send_error 500 (Internal_server_error e))
     \<or> handle_generate_proof int_str w req = No_response UnicodeEncodeError"
  proof -
    consider
      (ok) ua p b a l where "handle_generate_proof int_str w req =
        Json_response 200 json_headers
         (JDict [(''success'', JBool True),
           (''data'', JDict
             [(''proof'', JStr (''0x'' @ replicate 2000 (CHR ''a''))),
              (''public_inputs'', JStr (''0x'' @ replicate 100 (CHR ''b''))),
              (''vkey_hash'', JStr (''0x'' @ replicate 64 (CHR ''c''))),
              (''mode'', JStr ''compressed''),
              (''user_address'', ua),
              (''pool_id'', JInt p),
              (''user_balance'', JInt b),
              (''withdrawal_amount'', JInt a),
              (''pool_liquidity'', JInt l),
              (''timestamp'', JInt (time_ms w)),
              (''is_valid'', JBool True)])])"
    | (missing) data field where "read_json req = Inr data" "field \<in> set required_fields"
        "py_in field data = Inr False"
        "handle_generate_proof int_str w req = Send_error 400 (Missing_required_field field)"
    | (raised) e where
        "handle_generate_proof int_str w req = Send_error 500 (Internal_server_error e)"
    | (unsent) "handle_generate_proof int_str w req = No_response UnicodeEncodeError"
      using generate_proof_cases [where req = req and int_str = int_str and w = w] by blast
    then show ?thesis
    proof cases
      case ok
      then show ?thesis by (simp add: data_field_def top_field_def)
    next
      case missing
      then show ?thesis by blast
    next
      case raised
      then show ?thesis by blast
    next
      case unsent
      then show ?thesis by blast
    qed
  qed
qed

text \<open>
  C3. The specification asks that a generate-proof request whose
  \<^verbatim>\<open>withdrawal_amount\<close> exceeds its \<^verbatim>\<open>user_balance\<close> be rejected as a validation
  failure. \<^verbatim>\<open>handle_generate_proof\<close> never compares the two: a withdrawal of 500
  from a balance of 100 is answered with success.
\<close>

theorem generate_proof_accepts_overdraw:
  "status (handle_generate_proof int_of_ascii example_world
     (generate_request (withdrawal (JStr ''alice'') (JInt 1) (JInt 100) (JInt 500) (JInt 1000))))
     = Some 200
   \<and> top_field ''success'' (handle_generate_proof int_of_ascii example_world
     (generate_request (withdrawal (JStr ''alice'') (JInt 1) (JInt 100) (JInt 500) (JInt 1000))))
     = Some (JBool True)
   \<and> data_field ''user_balance'' (handle_generate_proof int_of_ascii example_world
     (generate_request (withdrawal (JStr ''alice'') (JInt 1) (JInt 100) (JInt 500) (JInt 1000))))
     = Some (JInt 100)
   \<and> data_field ''withdrawal_amount'' (handle_generate_proof int_of_ascii example_world
     (generate_request (withdrawal (JStr ''alice'') (JInt 1) (JInt 100) (JInt 500) (JInt 1000))))
     = Some (JInt 500)"
  by (simp add: generate_request_withdrawal [of _ _ 1 _ 100 _ 500 _ 1000]
      data_field_def top_field_def)

text \<open>
  C3, as the code has it. A generate-proof request (a JSON object with the five fields,
  the numeric ones accepted by \<^verbatim>\<open>int()\<close>) whose \<^verbatim>\<open>withdrawal_amount\<close> exceeds
  its \<^verbatim>\<open>user_balance\<close> is answered with 200 and \<^verbatim>\<open>success: true\<close>, both amounts
  echoed.
\<close>

theorem generate_proof_overdraw_succeeds:
  assumes "read_json req = Inr (JDict kvs)"
    and "map_of kvs ''user_address'' = Some user_address"
    and "map_of kvs ''pool_id'' = Some v1" and "py_int int_str v1 = Inr pool_id"
    and "map_of kvs ''user_balance'' = Some v2" and "py_int int_str v2 = Inr user_balance"
    and "map_of kvs ''withdrawal_amount'' = Some v3"
    and "py_int int_str v3 = Inr withdrawal_amount"
    and "map_of kvs ''pool_liquidity'' = Some v4" and "py_int int_str v4 = Inr pool_liquidity"
    and "withdrawal_amount > user_balance"
  shows "status (handle_generate_proof int_str w req) = Some 200
   \<and> top_field ''success'' (handle_generate_proof int_str w req) = Some (JBool True)
   \<and> data_field ''user_balance'' (handle_generate_proof int_str w req) = Some (JInt user_balance)
   \<and> data_field ''withdrawal_amount'' (handle_generate_proof int_str w req) =
       Some (JInt withdrawal_amount)"
  by (simp add: generate_proof_success [OF assms(1-10)] data_field_def top_field_def)

theorem generate_proof_overdraw_succeeds_witness:
  "status (handle_generate_proof int_of_ascii example_world
     (generate_request (withdrawal (JStr ''bob'') (JInt 7) (JInt 0) (JStr ''500'') (JInt 9))))
     = Some 200
   \<and> data_field ''user_balance'' (handle_generate_proof int_of_ascii example_world
     (generate_request (withdrawal (JStr ''bob'') (JInt 7) (JInt 0) (JStr ''500'') (JInt 9))))
     = Some (JInt 0)
   \<and> data_field ''withdrawal_amount'' (handle_generate_proof int_of_ascii example_world
     (generate_request (withdrawal (JStr ''bob'') (JInt 7) (JInt 0) (JStr ''500'') (JInt 9))))
     = Some (JInt 500)"
  using generate_proof_overdraw_succeeds
    [of "generate_request (withdrawal (JStr ''bob'') (JInt 7) (JInt 0) (JStr ''500'') (JInt 9))"
        "[(''user_address'', JStr ''bob''), (''pool_id'', JInt 7), (''user_balance'', JInt 0),
          (''withdrawal_amount'', JStr ''500''), (''pool_liquidity'', JInt 9)]"
        "JStr ''bob''" "JInt 7" int_of_ascii 7 "JInt 0" 0 "JStr ''500''" 500 "JInt 9" 9
        example_world]
  by (simp add: generate_request_def withdrawal_def int_of_ascii_500)


section \<open>Missing fields\<close>

text \<open>
  C4. The specification asks that every body that parses as JSON and lacks a required
  field be answered with 400 naming the absent field. Both handlers do so for a JSON
  object (\<open>generate_proof_missing_field\<close>, \<open>verify_proof_missing_field\<close>), but the
  test \<^verbatim>\<open>field not in data\<close> raises \<^verbatim>\<open>TypeError\<close> on the body \<^verbatim>\<open>null\<close>, which
  has none of the fields, and the answer is 500; the body that is the list of the five
  field names passes the test and fails at \<^verbatim>\<open>data['user_address']\<close>, 500 again.
\<close>

theorem missing_field_answered_500:
  "handle_generate_proof int_of_ascii example_world (generate_request JNull) =
     Send_error 500 (Internal_server_error TypeError)
   \<and> handle_verify_proof example_world (verify_request JNull) =
     Send_error 500 (Internal_server_error TypeError)
   \<and> handle_generate_proof int_of_ascii example_world
       (generate_request (JList [JStr ''user_address'', JStr ''pool_id'', JStr ''user_balance'',
          JStr ''withdrawal_amount'', JStr ''pool_liquidity''])) =
     Send_error 500 (Internal_server_error TypeError)"
  by (simp add: handle_generate_proof_def generate_proof_try_def handle_verify_proof_def
      verify_proof_try_def generate_request_def verify_request_def required_fields_def
      mock_proof_data_def)

section \<open>The health check\<close>

text \<open>
  C5. The specification asks that the health status be computed from live checks of the
  Proof Service Client and the Verifier Client: unhealthy when both are down, degraded
  when exactly one is unreachable, healthy when both are up. \<^verbatim>\<open>handle_health\<close>
  checks nothing: its status is not the one asked for when both are down, nor when one
  is.
\<close>

theorem health_ignores_dependencies:
  "top_field ''status'' (handle_health example_world) \<noteq>
     Some (JStr (spec_health_status False False))
   \<and> top_field ''status'' (handle_health example_world) \<noteq>
     Some (JStr (spec_health_status True False))
   \<and> top_field ''status'' (handle_health example_world) \<noteq>
     Some (JStr (spec_health_status False True))"
  by (simp add: handle_health_def top_field_def spec_health_status_def)

text \<open>
  C5, as the code has it. Every health-check response is 200 with the constant status
  \<^verbatim>\<open>healthy\<close>, the version \<^verbatim>\<open>1.0.0\<close> and the clock reading; no dependency is
  checked.
\<close>

theorem health_status_constant:
  assumes "path req = ''/api/health''"
  shows "status (do_POST int_str w req) = Some 200
   \<and> top_field ''status'' (do_POST int_str w req) = Some (JStr ''healthy'')
   \<and> top_field ''version'' (do_POST int_str w req) = Some (JStr ''1.0.0'')
   \<and> top_field ''timestamp'' (do_POST int_str w req) = Some (JFloat (time_time w))"
  using assms by (simp add: do_POST_def handle_health_def top_field_def)

theorem health_status_constant_witness:
  "top_field ''status''
     (do_POST int_of_ascii example_world \<lparr>path = ''/api/health'', read_json = Inl TypeError\<rparr>)
     = Some (JStr ''healthy'')
   \<and> top_field ''timestamp''
     (do_POST int_of_ascii example_world \<lparr>path = ''/api/health'', read_json = Inl TypeError\<rparr>)
     = Some (JFloat (Finite 1700000000))"
  using health_status_constant
    [of "\<lparr>path = ''/api/health'', read_json = Inl TypeError\<rparr>" int_of_ascii example_world]
  by (simp add: example_world_def)

section \<open>Numeric fields\<close>

text \<open>
  C6. The specification asks that a generate-proof request with a negative or a
  non-numeric numeric field be rejected with \<^verbatim>\<open>InvalidFieldType\<close>, neither accepted
  nor crashing. \<^verbatim>\<open>handle_generate_proof\<close> only applies \<^verbatim>\<open>int()\<close>: negative
  numbers are accepted and echoed, and the \<^verbatim>\<open>ValueError\<close> of
  \<^verbatim>\<open>int('abc')\<close> ends in the 500 of the \<^verbatim>\<open>except\<close> clause.
\<close>

theorem generate_proof_accepts_negative:
  "status (handle_generate_proof int_of_ascii example_world
     (generate_request (withdrawal (JStr ''alice'') (JInt (- 1)) (JInt (- 100)) (JInt (- 5))
        (JInt (- 7))))) = Some 200
   \<and> data_field ''pool_id'' (handle_generate_proof int_of_ascii example_world
     (generate_request (withdrawal (JStr ''alice'') (JInt (- 1)) (JInt (- 100)) (JInt (- 5))
        (JInt (- 7))))) = Some (JInt (- 1))
   \<and> handle_generate_proof int_of_ascii example_world
     (generate_request (withdrawal (JStr ''alice'') (JStr ''abc'') (JInt 100) (JInt 40)
        (JInt 1000))) = Send_error 500 (Internal_server_error ValueError)"
proof -
  have "handle_generate_proof int_of_ascii example_world
     (generate_request (withdrawal (JStr ''alice'') (JStr ''abc'') (JInt 100) (JInt 40)
        (JInt 1000))) = Send_error 500 (Internal_server_error ValueError)"
    by (simp add: handle_generate_proof_def generate_proof_try_def generate_request_def
        withdrawal_def required_fields_def mock_proof_data_def int_of_ascii_abc)
  then show ?thesis
    by (simp add: generate_request_withdrawal [of _ _ "- 1" _ "- 100" _ "- 5" _ "- 7"]
        data_field_def top_field_def)
qed

text \<open>
  C6, as the code has it. On a JSON object with the five fields, the numeric fields are
  passed through \<^verbatim>\<open>int()\<close> in the order \<^verbatim>\<open>pool_id\<close>, \<^verbatim>\<open>user_balance\<close>,
  \<^verbatim>\<open>withdrawal_amount\<close>, \<^verbatim>\<open>pool_liquidity\<close> and nothing else is checked: when
  all four are accepted, whatever their sign, the response is 200 and echoes the
  integers; when \<^verbatim>\<open>int()\<close> refuses one and the text of the first refusal encodes
  as latin-1, the response is 500 with that exception. No request is rejected for the
  type or the sign of a field. (When the text of the first refusal is wide, which takes
  a string with a character above U+00FF, \<^verbatim>\<open>send_error\<close> raises and nothing is
  sent: the \<open>Wide\<close> branches.)
\<close>

theorem generate_proof_numeric_fields:
  assumes "read_json req = Inr (JDict kvs)"
    and "map_of kvs ''user_address'' = Some user_address"
    and "map_of kvs ''pool_id'' = Some v1"
    and "map_of kvs ''user_balance'' = Some v2"
    and "map_of kvs ''withdrawal_amount'' = Some v3"
    and "map_of kvs ''pool_liquidity'' = Some v4"
  shows "handle_generate_proof int_str w req =
    (case py_int int_str v1 of
       Inl (e, Latin1) \<Rightarrow> Send_error 500 (Internal_server_error e)
     | Inl (e, Wide) \<Rightarrow> No_response UnicodeEncodeError
     | Inr pool_id \<Rightarrow>
    (case py_int int_str v2 of
       Inl (e, Latin1) \<Rightarrow> Send_error 500 (Internal_server_error e)
     | Inl (e, Wide) \<Rightarrow> No_response UnicodeEncodeError
     | Inr user_balance \<Rightarrow>
    (case py_int int_str v3 of
       Inl (e, Latin1) \<Rightarrow> Send_error 500 (Internal_server_error e)
     | Inl (e, Wide) \<Rightarrow> No_response UnicodeEncodeError
     | Inr withdrawal_amount \<Rightarrow>
    (case py_int int_str v4 of
       Inl (e, Latin1) \<Rightarrow> Send_error 500 (Internal_server_error e)
     | Inl (e, Wide) \<Rightarrow> No_response UnicodeEncodeError
     | Inr pool_liquidity \<Rightarrow>
       Json_response 200 json_headers
         (JDict [(''success'', JBool True),
           (''data'', JDict
             [(''proof'', JStr (''0x'' @ replicate 2000 (CHR ''a''))),
              (''public_inputs'', JStr (''0x'' @ replicate 100 (CHR ''b''))),
              (''vkey_hash'', JStr (''0x'' @ replicate 64 (CHR ''c''))),
              (''mode'', JStr ''compressed''),
              (''user_address'', user_address),
              (''pool_id'', JInt pool_id),
              (''user_balance'', JInt user_balance),
              (''withdrawal_amount'', JInt withdrawal_amount),
              (''pool_liquidity'', JInt pool_liquidity),
              (''timestamp'', JInt (time_ms w)),
              (''is_valid'', JBool True)])])))))"
proof -
  have "first_missing (JDict kvs) required_fields = Inr None"
    using assms by (simp add: first_missing_dict required_fields_def)
  then show ?thesis
    using assms(1)
    by (simp add: handle_generate_proof_def generate_proof_try_def
        mock_proof_data_dict [OF assms(2-6)] split: sum.splits prod.splits exn_text.splits)
qed

theorem generate_proof_numeric_fields_witness:
  "handle_generate_proof int_of_ascii example_world
     (generate_request (withdrawal (JStr ''carol'') (JInt (- 3)) (JBool True)
        (JFloat (Finite (- 7 / 2))) JNull)) = Send_error 500 (Internal_server_error TypeError)
   \<and> data_field ''withdrawal_amount'' (handle_generate_proof int_of_ascii example_world
     (generate_request (withdrawal (JStr ''carol'') (JInt (- 3)) (JBool True)
        (JFloat (Finite (- 7 / 2))) (JInt (- 9))))) = Some (JInt (- 3))
   \<and> handle_generate_proof int_of_ascii example_world
     (generate_request (withdrawal (JStr ''carol'')
        (JStr [CHR 0xE2, CHR 0x82, CHR 0xAC, CHR ''5'']) (JInt 100) (JInt 40) (JInt 1000)))
     = No_response UnicodeEncodeError"
  using generate_proof_numeric_fields
    [of "generate_request (withdrawal (JStr ''carol'') (JInt (- 3)) (JBool True)
        (JFloat (Finite (- 7 / 2))) JNull)"
        "[(''user_address'', JStr ''carol''), (''pool_id'', JInt (- 3)),
          (''user_balance'', JBool True), (''withdrawal_amount'', JFloat (Finite (- 7 / 2))),
          (''pool_liquidity'', JNull)]"
        "JStr ''carol''" "JInt (- 3)" "JBool True" "JFloat (Finite (- 7 / 2))" JNull
        int_of_ascii example_world]
    generate_proof_numeric_fields
    [of "generate_request (withdrawal (JStr ''carol'') (JInt (- 3)) (JBool True)
        (JFloat (Finite (- 7 / 2))) (JInt (- 9)))"
        "[(''user_address'', JStr ''carol''), (''pool_id'', JInt (- 3)),
          (''user_balance'', JBool True), (''withdrawal_amount'', JFloat (Finite (- 7 / 2))),
          (''pool_liquidity'', JInt (- 9))]"
        "JStr ''carol''" "JInt (- 3)" "JBool True" "JFloat (Finite (- 7 / 2))" "JInt (- 9)"
        int_of_ascii example_world]
    generate_proof_numeric_fields
    [of "generate_request (withdrawal (JStr ''carol'')
        (JStr [CHR 0xE2, CHR 0x82, CHR 0xAC, CHR ''5'']) (JInt 100) (JInt 40) (JInt 1000))"
        "[(''user_address'', JStr ''carol''),
          (''pool_id'', JStr [CHR 0xE2, CHR 0x82, CHR 0xAC, CHR ''5'']),
          (''user_balance'', JInt 100), (''withdrawal_amount'', JInt 40),
          (''pool_liquidity'', JInt 1000)]"
        "JStr ''carol''" "JStr [CHR 0xE2, CHR 0x82, CHR 0xAC, CHR ''5'']" "JInt 100" "JInt 40"
        "JInt 1000" int_of_ascii example_world]
  by (simp add: generate_request_def withdrawal_def trunc_rat_def ceiling_eq_iff
      data_field_def top_field_def int_of_ascii_euro)

section \<open>Malformed bodies\<close>

text \<open>
  C7. The specification asks that a body that fails to parse as JSON end in the typed
  failure \<^verbatim>\<open>MalformedRequest\<close>, mapped to 400 and not to 500. In
  \<^verbatim>\<open>handle_generate_proof\<close> the \<^verbatim>\<open>JSONDecodeError\<close> of \<^verbatim>\<open>json.loads\<close> is caught
  by \<^verbatim>\<open>except Exception\<close>, which answers 500.
\<close>

theorem malformed_json_answered_500:
  "handle_generate_proof int_of_ascii example_world
     \<lparr>path = ''/api/generate-proof'', read_json = Inl JSONDecodeError\<rparr> =
   Send_error 500 (Internal_server_error JSONDecodeError)
   \<and> status (handle_generate_proof int_of_ascii example_world
     \<lparr>path = ''/api/generate-proof'', read_json = Inl JSONDecodeError\<rparr>) \<noteq> Some 400"
  by (simp add: handle_generate_proof_def generate_proof_try_def)

text \<open>
  C7, as the code has it. When reading and parsing the body raises an exception, both
  POST handlers answer 500, \<^verbatim>\<open>Internal server error\<close> followed by the text of the
  exception.
\<close>

theorem unparsed_body_is_internal_error:
  assumes "read_json req = Inl e"
  shows "handle_generate_proof int_str w req = Send_error 500 (Internal_server_error e)
   \<and> handle_verify_proof w req = Send_error 500 (Internal_server_error e)"
  using assms
  by (simp add: handle_generate_proof_def generate_proof_try_def handle_verify_proof_def
      verify_proof_try_def)

theorem unparsed_body_is_internal_error_witness:
  "handle_verify_proof example_world
     \<lparr>path = ''/api/verify-proof'', read_json = Inl UnicodeDecodeError\<rparr> =
   Send_error 500 (Internal_server_error UnicodeDecodeError)"
  using unparsed_body_is_internal_error
    [of "\<lparr>path = ''/api/verify-proof'', read_json = Inl UnicodeDecodeError\<rparr>"
        UnicodeDecodeError int_of_ascii example_world]
  by simp

section \<open>Cross-origin headers\<close>

text \<open>
  C8. The specification asks that \<^verbatim>\<open>Access-Control-Allow-Origin\<close> be set only when
  the deployment enables a public demo mode, never unconditionally. The handlers read no
  such option: the health response carries the header, so it carries it with the mode
  disabled.
\<close>

theorem cors_without_demo_mode:
  "has_cors (handle_health example_world)
   \<and> \<not> spec_cors_allowed False (handle_health example_world)"
  by (simp add: spec_cors_allowed_def has_cors_def handle_health_def json_headers_def)

text \<open>
  C8, as the code has it. With no option consulted, the handlers of the POST API set
  \<^verbatim>\<open>Access-Control-Allow-Origin: *\<close> on every response they send with status 200,
  and on no response they send with \<^verbatim>\<open>send_error\<close>.
\<close>

theorem cors_on_every_success:
  "has_cors (do_POST int_str w req) = (status (do_POST int_str w req) = Some 200)"
  using generate_proof_cases [where req = req and int_str = int_str and w = w] verify_proof_cases [of w req]
  by (auto simp add: do_POST_def has_cors_def json_headers_def handle_health_def)

section \<open>Routing\<close>

text \<open>
  C9. The specification asks that \<^verbatim>\<open>GET /api/health\<close> be answered with the
  HealthStatus JSON, and \<^verbatim>\<open>main\<close> announces the health check at that URL.
  \<^verbatim>\<open>do_GET\<close> hands every path but \<^verbatim>\<open>/\<close> to the static file handler unchanged,
  \<^verbatim>\<open>/api/health\<close> included; \<^verbatim>\<open>handle_health\<close> is reached through
  \<^verbatim>\<open>do_POST\<close> only.
\<close>

theorem get_health_is_static_file:
  "do_GET \<lparr>path = ''/api/health'', read_json = Inl TypeError\<rparr> = Static_GET ''/api/health''
   \<and> body (do_GET \<lparr>path = ''/api/health'', read_json = Inl TypeError\<rparr>) = None
   \<and> do_POST int_of_ascii example_world \<lparr>path = ''/api/health'', read_json = Inl TypeError\<rparr>
       = handle_health example_world"
  by (simp add: do_GET_def do_POST_def)

section \<open>The mock artifact\<close>

text \<open>
  C10. For every generate-proof request that contains the five required fields and
  whose numeric fields are accepted by \<^verbatim>\<open>int()\<close>, the success response is determined
  by the request up to the timestamp: \<^verbatim>\<open>proof\<close> is \<^verbatim>\<open>0x\<close> and 2000 times
  \<^verbatim>\<open>a\<close>, \<^verbatim>\<open>public_inputs\<close> is \<^verbatim>\<open>0x\<close> and 100 times \<^verbatim>\<open>b\<close>,
  \<^verbatim>\<open>vkey_hash\<close> is \<^verbatim>\<open>0x\<close> and 64 times \<^verbatim>\<open>c\<close>, \<^verbatim>\<open>mode\<close> is
  \<^verbatim>\<open>compressed\<close>, \<^verbatim>\<open>is_valid\<close> is true, and the five fields are echoed, the
  four numeric ones as integers.
\<close>

theorem generate_proof_response_determined:
  assumes "read_json req = Inr (JDict kvs)"
    and "map_of kvs ''user_address'' = Some user_address"
    and "map_of kvs ''pool_id'' = Some v1" and "py_int int_str v1 = Inr pool_id"
    and "map_of kvs ''user_balance'' = Some v2" and "py_int int_str v2 = Inr user_balance"
    and "map_of kvs ''withdrawal_amount'' = Some v3"
    and "py_int int_str v3 = Inr withdrawal_amount"
    and "map_of kvs ''pool_liquidity'' = Some v4" and "py_int int_str v4 = Inr pool_liquidity"
  shows "handle_generate_proof int_str w req =
     Json_response 200 json_headers
       (JDict [(''success'', JBool True),
         (''data'', JDict
           [(''proof'', JStr (''0x'' @ replicate 2000 (CHR ''a''))),
            (''public_inputs'', JStr (''0x'' @ replicate 100 (CHR ''b''))),
            (''vkey_hash'', JStr (''0x'' @ replicate 64 (CHR ''c''))),
            (''mode'', JStr ''compressed''),
            (''user_address'', user_address),
            (''pool_id'', JInt pool_id),
            (''user_balance'', JInt user_balance),
            (''withdrawal_amount'', JInt withdrawal_amount),
            (''pool_liquidity'', JInt pool_liquidity),
            (''timestamp'', JInt (time_ms w)),
            (''is_valid'', JBool True)])])"
  using assms by (rule generate_proof_success)

theorem generate_proof_response_determined_witness:
  "handle_generate_proof int_of_ascii example_world
     (generate_request (withdrawal (JStr ''dave'') (JStr ''500'') (JFloat (Finite (5 / 2)))
        (JBool True) (JInt 12))) =
     Json_response 200 json_headers
       (JDict [(''success'', JBool True),
         (''data'', JDict
           [(''proof'', JStr (''0x'' @ replicate 2000 (CHR ''a''))),
            (''public_inputs'', JStr (''0x'' @ replicate 100 (CHR ''b''))),
            (''vkey_hash'', JStr (''0x'' @ replicate 64 (CHR ''c''))),
            (''mode'', JStr ''compressed''),
            (''user_address'', JStr ''dave''),
            (''pool_id'', JInt 500),
            (''user_balance'', JInt 2),
            (''withdrawal_amount'', JInt 1),
            (''pool_liquidity'', JInt 12),
            (''timestamp'', JInt 1700000000000),
            (''is_valid'', JBool True)])])"
  using generate_proof_response_determined
    [of "generate_request (withdrawal (JStr ''dave'') (JStr ''500'') (JFloat (Finite (5 / 2)))
        (JBool True) (JInt 12))"
        "[(''user_address'', JStr ''dave''), (''pool_id'', JStr ''500''),
          (''user_balance'', JFloat (Finite (5 / 2))), (''withdrawal_amount'', JBool True),
          (''pool_liquidity'', JInt 12)]"
        "JStr ''dave''" "JStr ''500''" int_of_ascii 500 "JFloat (Finite (5 / 2))" 2
        "JBool True" 1 "JInt 12" 12 example_world]
  by (simp add: generate_request_def withdrawal_def int_of_ascii_500 trunc_rat_def
      floor_eq_iff example_world_def)

end
